theory Spec2Isabelle
  imports Complex_Main "HOL-Library.AList"
begin

section \<open>Values and exceptions of the Python program\<close>

text \<open>
  The records of the program are Python dictionaries read from JSON or written as
  dictionary literals. A value is what \<^verbatim>\<open>json.loads\<close> can return: \<^verbatim>\<open>None\<close>, a bool, an
  int, a float, a str, a list or a dict. A dict is an association list in insertion
  order with distinct keys. The program never computes with a float, so a float is
  carried as the number token it was read from.
\<close>

datatype json =
    JNull
  | JBool bool
  | JInt int
  | JFloat string
  | JStr string
  | JList "json list"
  | JDict "(string \<times> json) list"

type_synonym dict = "(string \<times> json) list"

text \<open>
  The subclasses of \<^verbatim>\<open>Exception\<close> that the program can meet; the argument is the
  message, that is \<^verbatim>\<open>str(e)\<close>. \<open>OtherException\<close> stands for every other subclass
  (a transport, authentication or quota fault of the client, an \<^verbatim>\<open>IndexError\<close> on an
  empty content list, an \<^verbatim>\<open>OSError\<close> of the file system, ...).
\<close>

datatype exn =
    JSONDecodeError string
  | AttributeError string
  | TypeError string
  | ZeroDivisionError string
  | OtherException string

fun str_of :: "exn \<Rightarrow> string" where
  "str_of (JSONDecodeError m) = m"
| "str_of (AttributeError m) = m"
| "str_of (TypeError m) = m"
| "str_of (ZeroDivisionError m) = m"
| "str_of (OtherException m) = m"


definition bindE :: "exn + 'a \<Rightarrow> ('a \<Rightarrow> exn + 'b) \<Rightarrow> exn + 'b" where
  "bindE m f = (case m of Inl e \<Rightarrow> Inl e | Inr x \<Rightarrow> f x)"

subsection \<open>String operations\<close>

text \<open>\<^verbatim>\<open>s.find(c)\<close> for a one-character \<open>c\<close>: the least index, or -1.\<close>

fun find_from :: "char \<Rightarrow> string \<Rightarrow> int \<Rightarrow> int" where
  "find_from c [] i = -1"
| "find_from c (x # xs) i = (if x = c then i else find_from c xs (i + 1))"

definition str_find :: "string \<Rightarrow> char \<Rightarrow> int" where
  "str_find s c = find_from c s 0"

text \<open>\<^verbatim>\<open>s.rfind(c)\<close>: the greatest index, or -1.\<close>

fun rfind_from :: "char \<Rightarrow> string \<Rightarrow> int \<Rightarrow> int \<Rightarrow> int" where
  "rfind_from c [] i found = found"
| "rfind_from c (x # xs) i found = rfind_from c xs (i + 1) (if x = c then i else found)"

definition str_rfind :: "string \<Rightarrow> char \<Rightarrow> int" where
  "str_rfind s c = rfind_from c s 0 (-1)"

text \<open>
  \<^verbatim>\<open>s[a:b]\<close>: a negative bound counts from the end, both bounds are clamped to
  \<open>0..len(s)\<close>, and the slice is empty when the upper bound is not above the lower.
\<close>

definition slice_bound :: "int \<Rightarrow> int \<Rightarrow> int" where
  "slice_bound n a = (let a' = (if a < 0 then a + n else a) in
                      if a' < 0 then 0 else if n < a' then n else a')"

definition py_slice :: "string \<Rightarrow> int \<Rightarrow> int \<Rightarrow> string" where
  "py_slice s a b =
     (let n = int (length s); lo = slice_bound n a; hi = slice_bound n b
      in take (nat (hi - lo)) (drop (nat lo) s))"

text \<open>
  \<^verbatim>\<open>s.lower()\<close> on the ASCII letters. The program compares the result only with
  \<^verbatim>\<open>"yes"\<close> and \<^verbatim>\<open>"no"\<close>, and no character outside ASCII lowers to one of their letters.
\<close>

definition lower_char :: "char \<Rightarrow> char" where
  "lower_char c = (let k = of_char c :: nat in
                   if 65 \<le> k \<and> k \<le> 90 then char_of (k + 32) else c)"

definition str_lower :: "string \<Rightarrow> string" where
  "str_lower s = map lower_char s"

text \<open>\<^verbatim>\<open>k in s\<close> on two strings: \<open>k\<close> occurs in \<open>s\<close> as a substring.\<close>

fun is_substr :: "string \<Rightarrow> string \<Rightarrow> bool" where
  "is_substr k [] = (k = [])"
| "is_substr k (c # cs) = (take (length k) (c # cs) = k \<or> is_substr k cs)"

subsection \<open>Dynamic operations on values\<close>

fun py_type_name :: "json \<Rightarrow> string" where
  "py_type_name JNull = ''NoneType''"
| "py_type_name (JBool b) = ''bool''"
| "py_type_name (JInt i) = ''int''"
| "py_type_name (JFloat f) = ''float''"
| "py_type_name (JStr s) = ''str''"
| "py_type_name (JList xs) = ''list''"
| "py_type_name (JDict d) = ''dict''"

definition no_attribute :: "json \<Rightarrow> string \<Rightarrow> exn" where
  "no_attribute v a =
     AttributeError ([CHR 0x27] @ py_type_name v @ [CHR 0x27] @ '' object has no attribute ''
                     @ [CHR 0x27] @ a @ [CHR 0x27])"

text \<open>\<^verbatim>\<open>v.get(k, default)\<close>: only a dict has the method.\<close>

fun py_get :: "json \<Rightarrow> string \<Rightarrow> json \<Rightarrow> exn + json" where
  "py_get (JDict d) k dflt = Inr (case map_of d k of None \<Rightarrow> dflt | Some v \<Rightarrow> v)"
| "py_get v k dflt = Inl (no_attribute v ''get'')"

text \<open>\<^verbatim>\<open>v.lower()\<close>: only a str has the method.\<close>

fun py_lower :: "json \<Rightarrow> exn + string" where
  "py_lower (JStr s) = Inr (str_lower s)"
| "py_lower v = Inl (no_attribute v ''lower'')"

text \<open>
  \<^verbatim>\<open>k in v\<close> for a string \<open>k\<close>: key membership in a dict, element membership in a list,
  substring in a str, and a \<^verbatim>\<open>TypeError\<close> on a value that is not a container.
\<close>

fun py_in :: "string \<Rightarrow> json \<Rightarrow> exn + bool" where
  "py_in k (JDict d) = Inr (map_of d k \<noteq> None)"
| "py_in k (JList xs) = Inr (JStr k \<in> set xs)"
| "py_in k (JStr s) = Inr (is_substr k s)"
| "py_in k v = Inl (TypeError (''argument of type '' @ [CHR 0x27] @ py_type_name v @ [CHR 0x27]
                               @ '' is not iterable''))"

section \<open>A reader for JSON texts\<close>

text \<open>
  \<^verbatim>\<open>json.loads\<close> belongs to the Python library, not to the program, so every function
  below that calls it takes the reader as its argument \<open>loads\<close>, and the general
  theorems hold for every reader. \<open>json_loads\<close> is a concrete reader, written from the
  documentation of the library and used to run the program on fixed texts: a recursive
  descent over objects, arrays, strings with their escapes, numbers and the literals,
  with Python's whitespace. The recursion is bounded by the length of the text, since
  every call consumes a character.

  A string of the program is the list of its bytes in UTF-8. The characters the
  program searches for are ASCII, and no byte of a longer sequence is ASCII, so
  \<^verbatim>\<open>find\<close>, \<^verbatim>\<open>rfind\<close> and the slice between them cut the same text as on code points. A
  surrogate code point, which Python allows in a string and which \<^verbatim>\<open>json.loads\<close>
  produces from an unpaired \<^verbatim>\<open>\ud800\<close>..\<^verbatim>\<open>\udfff\<close> escape, has the three bytes of the
  same scheme; they occur in no proper UTF-8 text.

  The reader raises \<^verbatim>\<open>JSONDecodeError\<close> on a text that is not JSON; the program never
  looks at its message, which is the same here for every such error. It raises
  \<^verbatim>\<open>ValueError\<close>, rendered as \<open>OtherException\<close>, on an integer of more than 4300 digits,
  as the conversion of the library does when it reaches the number.
\<close>

definition decode_error :: "exn + 'a" where
  "decode_error = Inl (JSONDecodeError ''Expecting value'')"

definition is_ws :: "char \<Rightarrow> bool" where
  "is_ws c = (c = CHR 0x20 \<or> c = CHR 0x09 \<or> c = CHR 0x0A \<or> c = CHR 0x0D)"

definition skip_ws :: "string \<Rightarrow> string" where
  "skip_ws s = dropWhile is_ws s"

definition is_digit :: "char \<Rightarrow> bool" where
  "is_digit c = (let k = of_char c :: nat in 48 \<le> k \<and> k \<le> 57)"

definition digits_value :: "string \<Rightarrow> int" where
  "digits_value ds = foldl (\<lambda>n c. 10 * n + (int (of_char c) - 48)) 0 ds"

definition unescape :: "char \<Rightarrow> char option" where
  "unescape e =
     (if e = CHR 0x22 then Some (CHR 0x22)
      else if e = CHR 0x5C then Some (CHR 0x5C)
      else if e = CHR ''/'' then Some (CHR ''/'')
      else if e = CHR ''b'' then Some (CHR 0x08)
      else if e = CHR ''f'' then Some (CHR 0x0C)
      else if e = CHR ''n'' then Some (CHR 0x0A)
      else if e = CHR ''r'' then Some (CHR 0x0D)
      else if e = CHR ''t'' then Some (CHR 0x09)
      else None)"

text \<open>The four hexadecimal digits of a \<^verbatim>\<open>\u\<close> escape, as a code point.\<close>

definition hex_value :: "char \<Rightarrow> nat option" where
  "hex_value c =
     (let k = of_char c :: nat in
      if 48 \<le> k \<and> k \<le> 57 then Some (k - 48)
      else if 97 \<le> k \<and> k \<le> 102 then Some (k - 87)
      else if 65 \<le> k \<and> k \<le> 70 then Some (k - 55)
      else None)"

fun hex4 :: "string \<Rightarrow> nat option" where
  "hex4 (a # b # c # d # cs) =
     (case (hex_value a, hex_value b, hex_value c, hex_value d) of
        (Some x, Some y, Some z, Some w) \<Rightarrow> Some (((x * 16 + y) * 16 + z) * 16 + w)
      | _ \<Rightarrow> None)"
| "hex4 cs = None"

text \<open>The bytes of a code point in UTF-8 (three bytes for a surrogate as well).\<close>

definition utf8_of :: "nat \<Rightarrow> string" where
  "utf8_of cp =
     (if cp < 128 then [char_of cp]
      else if cp < 2048 then [char_of (192 + cp div 64), char_of (128 + cp mod 64)]
      else if cp < 65536 then
        [char_of (224 + cp div 4096), char_of (128 + cp div 64 mod 64), char_of (128 + cp mod 64)]
      else
        [char_of (240 + cp div 262144), char_of (128 + cp div 4096 mod 64),
         char_of (128 + cp div 64 mod 64), char_of (128 + cp mod 64)])"

text \<open>
  An occurrence of a surrogate in a string: the byte \<open>0xED\<close> followed by a byte from
  \<open>0xA0\<close> to \<open>0xBF\<close>.
\<close>

fun has_surrogate :: "string \<Rightarrow> bool" where
  "has_surrogate (a # b # cs) =
     ((a = CHR 0xED \<and> 160 \<le> (of_char b :: nat) \<and> (of_char b :: nat) \<le> 191)
      \<or> has_surrogate (b # cs))"
| "has_surrogate cs = False"

text \<open>
  The body of a string after its opening quote: the text read and the rest. A high
  surrogate escape directly followed by a low surrogate escape is one code point.
\<close>

fun scan_string :: "string \<Rightarrow> string \<Rightarrow> (string \<times> string) option" where
  "scan_string acc [] = None"
| "scan_string acc [c] = (if c = CHR 0x22 then Some (rev acc, []) else None)"
| "scan_string acc (c # d # cs) =
     (if c = CHR 0x22 then Some (rev acc, d # cs)
      else if c = CHR 0x5C then
        (if d = CHR ''u'' then
           (case hex4 cs of
              None \<Rightarrow> None
            | Some hi \<Rightarrow>
                if 55296 \<le> hi \<and> hi < 56320 \<and> take 2 (drop 4 cs) = [CHR 0x5C, CHR ''u''] then
                  (case hex4 (drop 6 cs) of
                     None \<Rightarrow> None
                   | Some lo \<Rightarrow>
                       if 56320 \<le> lo \<and> lo < 57344 then
                         scan_string
                           (rev (utf8_of (65536 + (hi - 55296) * 1024 + (lo - 56320))) @ acc)
                           (drop 10 cs)
                       else scan_string (rev (utf8_of hi) @ acc) (drop 4 cs))
                else scan_string (rev (utf8_of hi) @ acc) (drop 4 cs))
         else (case unescape d of None \<Rightarrow> None | Some x \<Rightarrow> scan_string (x # acc) cs))
      else if (of_char c :: nat) < 32 then None
      else scan_string (c # acc) (d # cs))"

text \<open>The \<^verbatim>\<open>ValueError\<close> of an integer that is too long; the tail of its message is left out.\<close>

definition digit_limit_error :: exn where
  "digit_limit_error =
     OtherException ''Exceeds the limit (4300 digits) for integer string conversion''"

definition scan_number :: "string \<Rightarrow> exn + (json \<times> string)" where
  "scan_number s =
     (let neg = (s \<noteq> [] \<and> hd s = CHR ''-'');
          r0 = (if neg then tl s else s);
          ds0 = takeWhile is_digit r0;
          ds = (if ds0 \<noteq> [] \<and> hd ds0 = CHR ''0'' then ''0'' else ds0);
          r1 = drop (length ds) r0;
          fd = (if r1 \<noteq> [] \<and> hd r1 = CHR ''.'' then takeWhile is_digit (tl r1) else []);
          frac = (if fd = [] then [] else CHR ''.'' # fd);
          r2 = drop (length frac) r1;
          sg = (if r2 \<noteq> [] \<and> (hd r2 = CHR ''e'' \<or> hd r2 = CHR ''E'') \<and> tl r2 \<noteq> []
                   \<and> (hd (tl r2) = CHR ''+'' \<or> hd (tl r2) = CHR ''-'')
                then [hd (tl r2)] else []);
          ed = (if r2 \<noteq> [] \<and> (hd r2 = CHR ''e'' \<or> hd r2 = CHR ''E'')
                then takeWhile is_digit (drop (Suc (length sg)) r2) else []);
          ex = (if ed = [] then [] else hd r2 # sg @ ed);
          r3 = drop (length ex) r2
      in if ds = [] then decode_error
         else if frac = [] \<and> ex = [] then
           (if 4300 < length ds then Inl digit_limit_error
            else Inr (JInt (if neg then - digits_value ds else digits_value ds), r3))
         else Inr (JFloat ((if neg then ''-'' else []) @ ds @ frac @ ex), r3))"

definition scan_literal :: "string \<Rightarrow> exn + (json \<times> string)" where
  "scan_literal s =
     (if take 4 s = ''null'' then Inr (JNull, drop 4 s)
      else if take 4 s = ''true'' then Inr (JBool True, drop 4 s)
      else if take 5 s = ''false'' then Inr (JBool False, drop 5 s)
      else if take 3 s = ''NaN'' then Inr (JFloat ''NaN'', drop 3 s)
      else if take 8 s = ''Infinity'' then Inr (JFloat ''Infinity'', drop 8 s)
      else if take 9 s = ''-Infinity'' then Inr (JFloat ''-Infinity'', drop 9 s)
      else scan_number s)"

fun parse_value :: "nat \<Rightarrow> string \<Rightarrow> exn + (json \<times> string)"
  and parse_elems :: "nat \<Rightarrow> json list \<Rightarrow> string \<Rightarrow> exn + (json list \<times> string)"
  and parse_members :: "nat \<Rightarrow> dict \<Rightarrow> string \<Rightarrow> exn + (dict \<times> string)"
where
  "parse_value 0 s = decode_error"
| "parse_value (Suc n) [] = decode_error"
| "parse_value (Suc n) (c # cs) =
     (if c = CHR ''{'' then
        (case skip_ws cs of
           [] \<Rightarrow> decode_error
         | d # ds \<Rightarrow>
             if d = CHR ''}'' then Inr (JDict [], ds)
             else (case parse_members n [] (d # ds) of
                     Inl e \<Rightarrow> Inl e
                   | Inr (m, r) \<Rightarrow> Inr (JDict m, r)))
      else if c = CHR ''['' then
        (case skip_ws cs of
           [] \<Rightarrow> decode_error
         | d # ds \<Rightarrow>
             if d = CHR '']'' then Inr (JList [], ds)
             else (case parse_elems n [] (d # ds) of
                     Inl e \<Rightarrow> Inl e
                   | Inr (xs, r) \<Rightarrow> Inr (JList xs, r)))
      else if c = CHR 0x22 then
        (case scan_string [] cs of None \<Rightarrow> decode_error | Some (t, r) \<Rightarrow> Inr (JStr t, r))
      else scan_literal (c # cs))"
| "parse_elems 0 acc s = decode_error"
| "parse_elems (Suc n) acc s =
     (case parse_value n s of
        Inl e \<Rightarrow> Inl e
      | Inr (v, r) \<Rightarrow>
          (case skip_ws r of
             [] \<Rightarrow> decode_error
           | d # ds \<Rightarrow>
               if d = CHR '']'' then Inr (acc @ [v], ds)
               else if d = CHR '','' then parse_elems n (acc @ [v]) (skip_ws ds)
               else decode_error))"
| "parse_members 0 acc s = decode_error"
| "parse_members (Suc n) acc s =
     (case s of
        [] \<Rightarrow> decode_error
      | q # qs \<Rightarrow>
          if q \<noteq> CHR 0x22 then decode_error
          else (case scan_string [] qs of
                  None \<Rightarrow> decode_error
                | Some (k, r) \<Rightarrow>
                    (case skip_ws r of
                       [] \<Rightarrow> decode_error
                     | col # r1 \<Rightarrow>
                         if col \<noteq> CHR '':'' then decode_error
                         else (case parse_value n (skip_ws r1) of
                                 Inl e \<Rightarrow> Inl e
                               | Inr (v, r2) \<Rightarrow>
                                   (case skip_ws r2 of
                                      [] \<Rightarrow> decode_error
                                    | d # ds \<Rightarrow>
                                        if d = CHR ''}'' then Inr (AList.update k v acc, ds)
                                        else if d = CHR '','' then
                                          parse_members n (AList.update k v acc) (skip_ws ds)
                                        else decode_error)))))"

definition json_loads :: "string \<Rightarrow> exn + json" where
  "json_loads s =
     (case parse_value (Suc (length s)) (skip_ws s) of
        Inl e \<Rightarrow> Inl e
      | Inr (v, r) \<Rightarrow>
          if skip_ws r = [] then Inr v else Inl (JSONDecodeError ''Extra data''))"


section \<open>The query of one startup: \<^verbatim>\<open>StartupSearcher.search_startup_info\<close>\<close>

text \<open>
  The \<^verbatim>\<open>contact_info\<close> literal that the three fallback dictionaries of
  \<^verbatim>\<open>search_startup_info\<close> and the error dictionary of \<^verbatim>\<open>scrape_startups\<close> share.
\<close>

definition contact_not_found :: json where
  "contact_not_found =
     JDict [(''website'', JStr ''Not found''),
            (''email'', JStr ''Not found''),
            (''linkedin'', JStr ''Not found''),
            (''twitter'', JStr ''Not found''),
            (''other'', JStr ''Not found'')]"

text \<open>The dictionary of the \<^verbatim>\<open>else\<close> branch: no JSON was found in the response.\<close>

definition no_json_record :: "string \<Rightarrow> string \<Rightarrow> json" where
  "no_json_record startup_name response_text =
     JDict [(''startup_name'', JStr startup_name),
            (''description'', JStr response_text),
            (''hiring_status'', JStr ''unknown''),
            (''contact_info'', contact_not_found)]"

text \<open>The dictionary of the \<^verbatim>\<open>except json.JSONDecodeError\<close> handler.\<close>

definition raw_response_record :: "string \<Rightarrow> string \<Rightarrow> json" where
  "raw_response_record startup_name response_text =
     JDict [(''startup_name'', JStr startup_name),
            (''description'', JStr response_text),
            (''hiring_status'', JStr ''unknown''),
            (''contact_info'', contact_not_found),
            (''raw_response'', JStr response_text)]"

text \<open>The dictionary of the outer \<^verbatim>\<open>except Exception as e\<close> handler.\<close>

definition search_error_record :: "string \<Rightarrow> exn \<Rightarrow> json" where
  "search_error_record startup_name e =
     JDict [(''startup_name'', JStr startup_name),
            (''error'', JStr (''Failed to search for startup: '' @ str_of e)),
            (''description'', JStr ''Error occurred during search''),
            (''hiring_status'', JStr ''unknown''),
            (''contact_info'', contact_not_found)]"

text \<open>The test \<^verbatim>\<open>start_idx != -1 and end_idx != -1\<close> on the two indices the code computes.\<close>

definition json_found :: "string \<Rightarrow> bool" where
  "json_found response_text =
     (let start_idx = str_find response_text (CHR ''{'');
          end_idx = str_rfind response_text (CHR ''}'') + 1
      in start_idx \<noteq> -1 \<and> end_idx \<noteq> -1)"

definition json_str :: "string \<Rightarrow> string" where
  "json_str response_text =
     (let start_idx = str_find response_text (CHR ''{'');
          end_idx = str_rfind response_text (CHR ''}'') + 1
      in py_slice response_text start_idx end_idx)"

text \<open>
  The inner \<^verbatim>\<open>try\<close> with its handler: a \<^verbatim>\<open>JSONDecodeError\<close> of the reader gives the
  raw-response dictionary, any other exception of the reader passes through.
\<close>

definition parse_response :: "(string \<Rightarrow> exn + json) \<Rightarrow> string \<Rightarrow> string \<Rightarrow> exn + json" where
  "parse_response loads startup_name response_text =
     (case (if json_found response_text then loads (json_str response_text)
            else Inr (no_json_record startup_name response_text)) of
        Inr startup_info \<Rightarrow> Inr startup_info
      | Inl (JSONDecodeError m) \<Rightarrow> Inr (raw_response_record startup_name response_text)
      | Inl e \<Rightarrow> Inl e)"

text \<open>
  \<open>response\<close> is the outcome of \<^verbatim>\<open>self.client.messages.create(...)\<close> followed by
  \<^verbatim>\<open>response.content[0].text\<close>: the response text, or the exception one of the two
  raised. The result is a sum so that returning and raising are told apart.
\<close>

definition search_startup_info ::
  "(string \<Rightarrow> exn + json) \<Rightarrow> string \<Rightarrow> exn + string \<Rightarrow> exn + json" where
  "search_startup_info loads startup_name response =
     (case bindE response (parse_response loads startup_name) of
        Inr startup_info \<Rightarrow> Inr startup_info
      | Inl e \<Rightarrow> Inr (search_error_record startup_name e))"

section \<open>The batch: \<^verbatim>\<open>BatchStartupScraper.scrape_startups\<close>\<close>

text \<open>
  The state a run changes: the list \<^verbatim>\<open>results\<close>, the files written (a file holds the
  list that was dumped into it), and the number of calls of \<^verbatim>\<open>time.sleep\<close>.
\<close>

record run_state =
  results :: "json list"
  files :: "string \<rightharpoonup> json list"
  sleeps :: nat

text \<open>
  \<^verbatim>\<open>_save_progress\<close>: \<open>wr\<close> is the outcome of opening the file and dumping the list
  into it. \<open>files\<close> gives the list that can be read from a file, if any. When
  \<^verbatim>\<open>open(filename, "w")\<close> raises, the file is as it was. When the file was opened, and so
  emptied, and the dump raises, the file holds no list any more. In both cases the
  handler prints a warning and the function returns.
\<close>

datatype write_fault = OpenFailed exn | DumpFailed exn

definition save_progress ::
  "(string \<Rightarrow> json list \<Rightarrow> write_fault + unit) \<Rightarrow> json list \<Rightarrow> string
     \<Rightarrow> (string \<rightharpoonup> json list) \<Rightarrow> (string \<rightharpoonup> json list)" where
  "save_progress wr rs filename fs =
     (case wr filename rs of
        Inr u \<Rightarrow> fs(filename \<mapsto> rs)
      | Inl (OpenFailed e) \<Rightarrow> fs
      | Inl (DumpFailed e) \<Rightarrow> fs(filename := None))"

text \<open>
  \<^verbatim>\<open>print(f"... {v}")\<close> on a standard output that encodes as UTF-8, as the symbols the
  program prints need. The text printed for a string is the string itself, and a
  surrogate in it cannot be encoded: \<^verbatim>\<open>print\<close> raises \<^verbatim>\<open>UnicodeEncodeError\<close>, whose
  message is shortened here. The text printed for any other value is ASCII.
\<close>

definition encode_error :: exn where
  "encode_error = OtherException ''utf-8 codec cannot encode character: surrogates not allowed''"

fun py_print :: "json \<Rightarrow> exn + unit" where
  "py_print (JStr s) = (if has_surrogate s then Inl encode_error else Inr ())"
| "py_print v = Inr ()"

text \<open>
  The brief display of a result (the \<^verbatim>\<open>if "error" not in startup_info\<close> statement), with
  the method calls and the prints that can raise.
\<close>

definition show_brief :: "json \<Rightarrow> exn + unit" where
  "show_brief startup_info =
     bindE (py_in ''error'' startup_info) (\<lambda>has_error.
       if \<not> has_error then
         bindE (py_get startup_info ''hiring_status'' (JStr ''unknown'')) (\<lambda>status.
         bindE (py_lower status) (\<lambda>l.
         bindE (py_print status) (\<lambda>u.
         bindE (py_get startup_info ''contact_info'' (JDict [])) (\<lambda>contact_info.
         bindE (py_get contact_info ''website'' (JStr ''Not found'')) (\<lambda>website.
           if website \<noteq> JStr ''Not found'' then py_print website else Inr ())))))
       else
         bindE (py_get startup_info ''error'' (JStr ''Unknown error'')) (\<lambda>m. py_print m))"

text \<open>The dictionary of the handler of \<^verbatim>\<open>scrape_startups\<close>.\<close>

definition error_info :: "string \<Rightarrow> exn \<Rightarrow> json" where
  "error_info startup_name e =
     JDict [(''startup_name'', JStr startup_name),
            (''error'', JStr (''Unexpected error: '' @ str_of e)),
            (''description'', JStr ''Error occurred during search''),
            (''hiring_status'', JStr ''unknown''),
            (''contact_info'', contact_not_found)]"

text \<open>\<^verbatim>\<open>if output_file:\<close> holds for a path that is neither \<^verbatim>\<open>None\<close> nor empty.\<close>

fun path_given :: "string option \<Rightarrow> bool" where
  "path_given None = False"
| "path_given (Some f) = (f \<noteq> [])"

text \<open>
  The \<^verbatim>\<open>try\<close> statement of the loop body. The \<^verbatim>\<open>append\<close> comes before the display, so
  what it did to \<^verbatim>\<open>results\<close> stays when the display raises and the handler runs.
\<close>

definition process_startup ::
  "(string \<Rightarrow> exn + json) \<Rightarrow> (string \<Rightarrow> exn + string) \<Rightarrow> (string \<Rightarrow> json list \<Rightarrow> write_fault + unit)
     \<Rightarrow> string option \<Rightarrow> string \<Rightarrow> run_state \<Rightarrow> run_state" where
  "process_startup loads client wr output_file startup_name st =
     (case search_startup_info loads startup_name (client startup_name) of
        Inl e \<Rightarrow> st\<lparr>results := results st @ [error_info startup_name e]\<rparr>
      | Inr startup_info \<Rightarrow>
          (let st1 = st\<lparr>results := results st @ [startup_info]\<rparr> in
           case show_brief startup_info of
             Inl e \<Rightarrow> st1\<lparr>results := results st1 @ [error_info startup_name e]\<rparr>
           | Inr u \<Rightarrow>
               if path_given output_file
               then st1\<lparr>files := save_progress wr (results st1) (the output_file) (files st1)\<rparr>
               else st1))"

text \<open>The \<^verbatim>\<open>for\<close> loop: \<open>n\<close> is \<^verbatim>\<open>len(startup_list)\<close>, \<open>i\<close> counts from 1.\<close>

fun scrape_loop ::
  "(string \<Rightarrow> exn + json) \<Rightarrow> (string \<Rightarrow> exn + string) \<Rightarrow> (string \<Rightarrow> json list \<Rightarrow> write_fault + unit)
     \<Rightarrow> string option \<Rightarrow> nat \<Rightarrow> nat \<Rightarrow> string list \<Rightarrow> run_state \<Rightarrow> run_state" where
  "scrape_loop loads client wr output_file n i [] st = st"
| "scrape_loop loads client wr output_file n i (startup_name # rest) st =
     (let st1 = process_startup loads client wr output_file startup_name st;
          st2 = (if i < n then st1\<lparr>sleeps := sleeps st1 + 1\<rparr> else st1)
      in scrape_loop loads client wr output_file n (i + 1) rest st2)"

text \<open>
  \<open>client\<close> gives the outcome of the query for a startup name (the prompt is a fixed
  template around the name), \<open>fs\<close> the files before the run. The list returned is
  \<open>results\<close> of the final state.
\<close>

definition scrape_startups ::
  "(string \<Rightarrow> exn + json) \<Rightarrow> (string \<Rightarrow> exn + string) \<Rightarrow> (string \<Rightarrow> json list \<Rightarrow> write_fault + unit)
     \<Rightarrow> (string \<rightharpoonup> json list) \<Rightarrow> string list \<Rightarrow> string option \<Rightarrow> run_state" where
  "scrape_startups loads client wr fs startup_list output_file =
     (if startup_list = [] then \<lparr>results = [], files = fs, sleeps = 0\<rparr>
      else scrape_loop loads client wr output_file (length startup_list) 1 startup_list
             \<lparr>results = [], files = fs, sleeps = 0\<rparr>)"

section \<open>The summary: \<^verbatim>\<open>BatchStartupScraper.generate_summary_report\<close>\<close>

text \<open>
  A list comprehension \<^verbatim>\<open>[r for r in results if p(r)]\<close> whose test can raise: the first
  exception ends it.
\<close>

fun filter_where :: "(json \<Rightarrow> exn + bool) \<Rightarrow> json list \<Rightarrow> exn + json list" where
  "filter_where p [] = Inr []"
| "filter_where p (r # rs) =
     bindE (p r) (\<lambda>b. bindE (filter_where p rs) (\<lambda>xs. Inr (if b then r # xs else xs)))"

text \<open>\<^verbatim>\<open>"error" in r\<close>\<close>

definition has_error :: "json \<Rightarrow> exn + bool" where
  "has_error r = py_in ''error'' r"

text \<open>\<^verbatim>\<open>r.get("hiring_status", "").lower() == s\<close>\<close>

definition hiring_is :: "string \<Rightarrow> json \<Rightarrow> exn + bool" where
  "hiring_is s r =
     bindE (py_get r ''hiring_status'' (JStr [])) (\<lambda>status.
     bindE (py_lower status) (\<lambda>l. Inr (l = s)))"

text \<open>\<^verbatim>\<open>r.get("contact_info", {}).get(k, "Not found") != "Not found"\<close>\<close>

definition contact_found :: "string \<Rightarrow> json \<Rightarrow> exn + bool" where
  "contact_found k r =
     bindE (py_get r ''contact_info'' (JDict [])) (\<lambda>contact_info.
     bindE (py_get contact_info k (JStr ''Not found'')) (\<lambda>v. Inr (v \<noteq> JStr ''Not found'')))"

text \<open>
  \<^verbatim>\<open>count/total*100\<close>: the quotient is the exact ratio, the rounding of floats and of the
  display is left out; dividing by zero raises.
\<close>

definition percent :: "int \<Rightarrow> int \<Rightarrow> exn + rat" where
  "percent c t =
     (if t = 0 then Inl (ZeroDivisionError ''division by zero'')
      else Inr (of_int c / of_int t * 100))"

text \<open>The line printed for a hiring company: its name and its website.\<close>

definition company_line :: "json \<Rightarrow> exn + (json \<times> json)" where
  "company_line company =
     bindE (py_get company ''startup_name'' (JStr ''Unknown'')) (\<lambda>name.
     bindE (py_get company ''contact_info'' (JDict [])) (\<lambda>contact_info.
     bindE (py_get contact_info ''website'' (JStr ''No website'')) (\<lambda>website.
       Inr (name, website))))"

fun company_lines :: "json list \<Rightarrow> exn + (json \<times> json) list" where
  "company_lines [] = Inr []"
| "company_lines (c # cs) =
     bindE (company_line c) (\<lambda>l. bindE (company_lines cs) (\<lambda>ls. Inr (l # ls)))"

text \<open>What the report prints, in the order it is computed.\<close>

record report =
  total :: int
  successful :: int
  errors :: int
  hiring_yes :: int
  hiring_no :: int
  hiring_unknown :: int
  has_website :: int
  has_email :: int
  pct_successful :: rat
  pct_errors :: rat
  pct_yes :: rat
  pct_no :: rat
  pct_unknown :: rat
  pct_website :: rat
  pct_email :: rat
  hiring_listed :: "(json \<times> json) list"
  hiring_more :: "int option"

text \<open>
  \<open>NothingToAnalyze\<close> is the early return after \<^verbatim>\<open>print("No results to analyze.")\<close>.
  The argument is the list analysed (\<^verbatim>\<open>self.results\<close> when the caller passes none).
\<close>

datatype summary = NothingToAnalyze | Report report

definition generate_summary_report :: "json list \<Rightarrow> exn + summary" where
  "generate_summary_report rs =
     (if rs = [] then Inr NothingToAnalyze
      else
        let t = int (length rs) in
        bindE (filter_where has_error rs) (\<lambda>es.
        let e = int (length es); s = t - e in
        bindE (filter_where (hiring_is ''yes'') rs) (\<lambda>ys.
        let y = int (length ys) in
        bindE (filter_where (hiring_is ''no'') rs) (\<lambda>ns.
        let n = int (length ns); u = t - y - n in
        bindE (filter_where (contact_found ''website'') rs) (\<lambda>ws.
        let w = int (length ws) in
        bindE (filter_where (contact_found ''email'') rs) (\<lambda>ms.
        let m = int (length ms) in
        bindE (percent s t) (\<lambda>ps.
        bindE (percent e t) (\<lambda>pe.
        bindE (percent y t) (\<lambda>py.
        bindE (percent n t) (\<lambda>pn.
        bindE (percent u t) (\<lambda>pu.
        bindE (percent w t) (\<lambda>pw.
        bindE (percent m t) (\<lambda>pm.
        bindE (filter_where (hiring_is ''yes'') rs) (\<lambda>hiring_companies.
        bindE (company_lines (take 10 hiring_companies)) (\<lambda>ls.
          Inr (Report \<lparr>total = t, successful = s, errors = e,
                 hiring_yes = y, hiring_no = n, hiring_unknown = u,
                 has_website = w, has_email = m,
                 pct_successful = ps, pct_errors = pe, pct_yes = py, pct_no = pn,
                 pct_unknown = pu, pct_website = pw, pct_email = pm,
                 hiring_listed = ls,
                 hiring_more = (if 10 < length hiring_companies
                                then Some (int (length hiring_companies) - 10)
                                else None)\<rparr>))))))))))))))))"

section \<open>Properties of records named by the specification\<close>

text \<open>
  These predicates are written from the words of the specification, not from the
  code: they are what the theorems below compare the code with.
\<close>

text \<open>All five top-level fields of the schema are present in a record.\<close>

definition schema_fields_present :: "json \<Rightarrow> bool" where
  "schema_fields_present r =
     (py_in ''startup_name'' r = Inr True \<and> py_in ''description'' r = Inr True
      \<and> py_in ''keywords'' r = Inr True \<and> py_in ''hiring_status'' r = Inr True
      \<and> py_in ''contact_info'' r = Inr True)"

text \<open>The four fields that every dictionary literal of the code carries.\<close>

definition literal_fields_present :: "json \<Rightarrow> bool" where
  "literal_fields_present r =
     (py_in ''startup_name'' r = Inr True \<and> py_in ''description'' r = Inr True
      \<and> py_in ''hiring_status'' r = Inr True \<and> py_in ''contact_info'' r = Inr True)"

text \<open>The hiring status of a record is present and, up to case, yes, no or unknown.\<close>

fun hiring_status_valid :: "json \<Rightarrow> bool" where
  "hiring_status_valid (JDict d) =
     (case map_of d ''hiring_status'' of
        Some (JStr s) \<Rightarrow> str_lower s = ''yes'' \<or> str_lower s = ''no'' \<or> str_lower s = ''unknown''
      | _ \<Rightarrow> False)"
| "hiring_status_valid v = False"


text \<open>
  A record that the report can read: a dictionary whose hiring status, when present,
  is a string and whose contact information, when present, is a dictionary.
\<close>

fun report_ready :: "json \<Rightarrow> bool" where
  "report_ready (JDict d) =
     ((case map_of d ''hiring_status'' of None \<Rightarrow> True | Some (JStr s) \<Rightarrow> True | _ \<Rightarrow> False)
      \<and> (case map_of d ''contact_info'' of None \<Rightarrow> True | Some (JDict c) \<Rightarrow> True | _ \<Rightarrow> False))"
| "report_ready v = False"

section \<open>Facts about the string operations and the exception plumbing\<close>

lemma bindE_Inr_iff: "bindE m f = Inr y \<longleftrightarrow> (\<exists>x. m = Inr x \<and> f x = Inr y)"
  by (cases m) (simp_all add: bindE_def)

lemma bindE_Inl_iff: "bindE m f = Inl e \<longleftrightarrow> m = Inl e \<or> (\<exists>x. m = Inr x \<and> f x = Inl e)"
  by (cases m) (simp_all add: bindE_def)

lemma bindE_simps: "bindE (Inl e) f = Inl e" "bindE (Inr x) f = f x"
  by (simp_all add: bindE_def)

lemma find_from_absent: "c \<notin> set s \<Longrightarrow> find_from c s i = -1"
  by (induction s arbitrary: i) auto

lemma find_from_present: "c \<in> set s \<Longrightarrow> i \<le> find_from c s i"
proof (induction s arbitrary: i)
  case Nil
  then show ?case by simp
next
  case (Cons x xs)
  show ?case
  proof (cases "x = c")
    case True
    then show ?thesis by simp
  next
    case False
    with Cons.prems have "c \<in> set xs" by simp
    from Cons.IH [OF this, of "i + 1"] False show ?thesis by simp
  qed
qed

lemma str_find_none_iff: "str_find s c = -1 \<longleftrightarrow> c \<notin> set s"
proof
  assume h: "str_find s c = -1"
  show "c \<notin> set s"
  proof
    assume "c \<in> set s"
    from find_from_present [OF this, of 0] h show False by (simp add: str_find_def)
  qed
next
  assume "c \<notin> set s"
  then show "str_find s c = -1" by (simp add: str_find_def find_from_absent)
qed

lemma str_find_nonneg: "c \<in> set s \<Longrightarrow> 0 \<le> str_find s c"
  using find_from_present [of c s 0] by (simp add: str_find_def)

lemma rfind_from_lower: "-1 \<le> found \<Longrightarrow> 0 \<le> i \<Longrightarrow> -1 \<le> rfind_from c s i found"
  by (induction s arbitrary: i found) auto

lemma rfind_from_absent: "c \<notin> set s \<Longrightarrow> rfind_from c s i found = found"
  by (induction s arbitrary: i found) auto

lemma str_rfind_lower: "-1 \<le> str_rfind s c"
  by (simp add: str_rfind_def rfind_from_lower)

lemma str_rfind_absent: "c \<notin> set s \<Longrightarrow> str_rfind s c = -1"
  by (simp add: str_rfind_def rfind_from_absent)

lemma json_found_iff: "json_found t \<longleftrightarrow> CHR ''{'' \<in> set t"
proof -
  have "str_rfind t (CHR ''}'') + 1 \<noteq> -1"
    using str_rfind_lower [of t "CHR ''}''"] by simp
  then show ?thesis
    by (simp add: json_found_def Let_def str_find_none_iff)
qed

lemma py_slice_to_zero: "0 \<le> a \<Longrightarrow> py_slice s a 0 = []"
  by (simp add: py_slice_def slice_bound_def Let_def)

lemma json_str_unclosed:
  assumes "CHR ''{'' \<in> set t" and "CHR ''}'' \<notin> set t"
  shows "json_str t = []"
  using assms by (simp add: json_str_def Let_def str_rfind_absent str_find_nonneg py_slice_to_zero)

lemma search_startup_info_cases:
  "search_startup_info loads n resp =
     Inr (case resp of
            Inl e \<Rightarrow> search_error_record n e
          | Inr t \<Rightarrow>
              if json_found t then
                (case loads (json_str t) of
                   Inr v \<Rightarrow> v
                 | Inl (JSONDecodeError m) \<Rightarrow> raw_response_record n t
                 | Inl e \<Rightarrow> search_error_record n e)
              else no_json_record n t)"
  by (simp add: search_startup_info_def parse_response_def bindE_def
           split: sum.splits exn.splits)











text \<open>The definitions that running the reader and the slicing on a fixed text unfolds.\<close>

lemmas run_text =
  json_loads_def decode_error_def skip_ws_def is_ws_def scan_literal_def scan_number_def
  is_digit_def digits_value_def unescape_def json_str_def str_find_def str_rfind_def
  py_slice_def slice_bound_def Let_def

section \<open>The query of one startup\<close>

text \<open>
  Claim C5. Whatever exception the query of the external service raises,
  \<open>search_startup_info\<close> returns and does not raise, and what it returns is a dictionary
  whose \<open>error\<close> is the message "Failed to search for startup: " followed by the text of
  the exception, whose \<open>description\<close> is "Error occurred during search", whose
  \<open>hiring_status\<close> is "unknown" and whose \<open>contact_info\<close> has "Not found" in each of its
  five fields.
\<close>

theorem query_fault_gives_error_record:
  "search_startup_info loads startup_name (Inl e) =
     Inr (JDict [(''startup_name'', JStr startup_name),
                 (''error'', JStr (''Failed to search for startup: '' @ str_of e)),
                 (''description'', JStr ''Error occurred during search''),
                 (''hiring_status'', JStr ''unknown''),
                 (''contact_info'',
                    JDict [(''website'', JStr ''Not found''),
                           (''email'', JStr ''Not found''),
                           (''linkedin'', JStr ''Not found''),
                           (''twitter'', JStr ''Not found''),
                           (''other'', JStr ''Not found'')])])"
  by (simp add: search_startup_info_cases search_error_record_def contact_not_found_def)




text \<open>
  Claim C10. A response text with an opening brace and no closing brace gets the
  parse-failure record, with the whole text as \<open>description\<close> and as \<open>raw_response\<close>, and
  not the record of the no-braces branch: \<^verbatim>\<open>rfind\<close> gives -1, so \<^verbatim>\<open>end_idx\<close> is 0, the test
  of the two indices holds, the extracted substring is empty, and the reader rejects
  the empty text (as \<^verbatim>\<open>json.loads("")\<close> does, which is the hypothesis on the reader).
  The no-braces branch is taken exactly for the texts without an opening brace.
\<close>

theorem unclosed_brace_is_parse_failure:
  assumes "CHR ''{'' \<in> set t" and "CHR ''}'' \<notin> set t"
    and "loads [] = Inl (JSONDecodeError m)"
  shows "str_rfind t (CHR ''}'') + 1 = 0
         \<and> json_found t
         \<and> json_str t = []
         \<and> search_startup_info loads n (Inr t) =
             Inr (JDict [(''startup_name'', JStr n),
                         (''description'', JStr t),
                         (''hiring_status'', JStr ''unknown''),
                         (''contact_info'', contact_not_found),
                         (''raw_response'', JStr t)])
         \<and> search_startup_info loads n (Inr t) \<noteq> Inr (no_json_record n t)
         \<and> (\<forall>s. (search_startup_info loads n (Inr s) = Inr (no_json_record n s)
                    \<and> \<not> json_found s) = (CHR ''{'' \<notin> set s))"
proof -
  have 1: "str_rfind t (CHR ''}'') + 1 = 0"
    using assms(2) by (simp add: str_rfind_absent)
  have 2: "json_found t"
    using assms(1) by (simp add: json_found_iff)
  have 3: "json_str t = []"
    using assms(1,2) by (rule json_str_unclosed)
  have 4: "search_startup_info loads n (Inr t) = Inr (raw_response_record n t)"
    using 2 3 assms(3) by (simp add: search_startup_info_cases)
  have 5: "raw_response_record n t \<noteq> no_json_record n t"
    by (simp add: raw_response_record_def no_json_record_def)
  have 6: "(search_startup_info loads n (Inr s) = Inr (no_json_record n s) \<and> \<not> json_found s)
             = (CHR ''{'' \<notin> set s)" for s
    by (auto simp add: search_startup_info_cases json_found_iff)
  from 1 2 3 4 5 6 show ?thesis
    by (simp add: raw_response_record_def)
qed

theorem unclosed_brace_is_parse_failure_witness:
  "CHR ''{'' \<in> set ''Data: {name''
   \<and> CHR ''}'' \<notin> set ''Data: {name''
   \<and> json_loads [] = Inl (JSONDecodeError ''Expecting value'')
   \<and> json_str ''Data: {name'' = []
   \<and> search_startup_info json_loads ''Acme'' (Inr ''Data: {name'') =
        Inr (JDict [(''startup_name'', JStr ''Acme''),
                    (''description'', JStr ''Data: {name''),
                    (''hiring_status'', JStr ''unknown''),
                    (''contact_info'', contact_not_found),
                    (''raw_response'', JStr ''Data: {name'')])"
proof -
  have a: "CHR ''{'' \<in> set ''Data: {name''" by simp
  have b: "CHR ''}'' \<notin> set ''Data: {name''" by simp
  have c: "json_loads [] = Inl (JSONDecodeError ''Expecting value'')"
    by (simp add: run_text)
  from unclosed_brace_is_parse_failure [where loads = json_loads and n = "''Acme''", OF a b c] a b c
  show ?thesis by blast
qed

lemma literal_records_fields:
  "literal_fields_present (search_error_record n e) \<and> py_in ''keywords'' (search_error_record n e) = Inr False"
  "literal_fields_present (no_json_record n t) \<and> py_in ''keywords'' (no_json_record n t) = Inr False"
  "literal_fields_present (raw_response_record n t) \<and> py_in ''keywords'' (raw_response_record n t) = Inr False"
  by (simp_all add: literal_fields_present_def search_error_record_def no_json_record_def
        raw_response_record_def)

text \<open>
  Claim C2 says that every record of \<open>search_startup_info\<close> has all five fields of the
  schema. Two records show that it does not: the record of a query that failed has no
  \<open>keywords\<close>, and the response \<^verbatim>\<open>{}\<close> is taken as it is, a record with no field at all.
\<close>

theorem schema_fields_counterexample:
  "search_startup_info json_loads ''Acme'' (Inl (OtherException ''timeout'')) =
     Inr (search_error_record ''Acme'' (OtherException ''timeout''))
   \<and> \<not> schema_fields_present (search_error_record ''Acme'' (OtherException ''timeout''))
   \<and> search_startup_info json_loads ''Acme'' (Inr ''{}'') = Inr (JDict [])
   \<and> \<not> schema_fields_present (JDict [])"
  by (simp add: search_startup_info_cases schema_fields_present_def search_error_record_def
        json_found_iff run_text)

text \<open>
  Claim C2, as the code has it. On the error branch and on the two fallback branches
  the record has the four fields \<open>startup_name\<close>, \<open>description\<close>, \<open>hiring_status\<close> and
  \<open>contact_info\<close>, and no \<open>keywords\<close>. On the branch where the reader accepts the
  extracted text, the record is the value read, with the fields the response gave it.
\<close>

theorem record_fields_by_branch:
  "(resp = Inl e \<longrightarrow>
      (\<exists>r. search_startup_info loads n resp = Inr r \<and> literal_fields_present r
            \<and> py_in ''keywords'' r = Inr False))
   \<and> (resp = Inr t \<and> \<not> json_found t \<longrightarrow>
      (\<exists>r. search_startup_info loads n resp = Inr r \<and> literal_fields_present r
            \<and> py_in ''keywords'' r = Inr False))
   \<and> (resp = Inr t \<and> json_found t \<and> loads (json_str t) = Inl e' \<longrightarrow>
      (\<exists>r. search_startup_info loads n resp = Inr r \<and> literal_fields_present r
            \<and> py_in ''keywords'' r = Inr False))
   \<and> (resp = Inr t \<and> json_found t \<and> loads (json_str t) = Inr v \<longrightarrow>
      search_startup_info loads n resp = Inr v)"
  by (auto simp add: search_startup_info_cases literal_records_fields split: exn.splits)

theorem record_fields_by_branch_witness:
  "(\<exists>r. search_startup_info json_loads ''Acme'' (Inl (OtherException ''timeout'')) = Inr r
        \<and> literal_fields_present r \<and> py_in ''keywords'' r = Inr False)
   \<and> \<not> json_found ''nothing''
   \<and> (\<exists>r. search_startup_info json_loads ''Acme'' (Inr ''nothing'') = Inr r
        \<and> literal_fields_present r \<and> py_in ''keywords'' r = Inr False)
   \<and> json_found ''{x}'' \<and> json_loads (json_str ''{x}'') = Inl (JSONDecodeError ''Expecting value'')
   \<and> (\<exists>r. search_startup_info json_loads ''Acme'' (Inr ''{x}'') = Inr r
        \<and> literal_fields_present r \<and> py_in ''keywords'' r = Inr False)
   \<and> json_found ''{}'' \<and> json_loads (json_str ''{}'') = Inr (JDict [])
   \<and> search_startup_info json_loads ''Acme'' (Inr ''{}'') = Inr (JDict [])"
proof -
  have a: "\<not> json_found ''nothing''" by (simp add: json_found_iff)
  have b: "json_found ''{x}''" by (simp add: json_found_iff)
  have c: "json_loads (json_str ''{x}'') = Inl (JSONDecodeError ''Expecting value'')"
    by (simp add: run_text)
  have d: "json_found ''{}''" by (simp add: json_found_iff)
  have e: "json_loads (json_str ''{}'') = Inr (JDict [])"
    by (simp add: run_text)
  note th = record_fields_by_branch [where loads = json_loads and n = "''Acme''"]
  from th [where resp = "Inl (OtherException ''timeout'')" and e = "OtherException ''timeout''"]
  have 1: "\<exists>r. search_startup_info json_loads ''Acme'' (Inl (OtherException ''timeout'')) = Inr r
        \<and> literal_fields_present r \<and> py_in ''keywords'' r = Inr False"
    by blast
  from th [where resp = "Inr ''nothing''" and t = "''nothing''"] a
  have 2: "\<exists>r. search_startup_info json_loads ''Acme'' (Inr ''nothing'') = Inr r
        \<and> literal_fields_present r \<and> py_in ''keywords'' r = Inr False"
    by blast
  from th [where resp = "Inr ''{x}''" and t = "''{x}''" and e' = "JSONDecodeError ''Expecting value''"] b c
  have 3: "\<exists>r. search_startup_info json_loads ''Acme'' (Inr ''{x}'') = Inr r
        \<and> literal_fields_present r \<and> py_in ''keywords'' r = Inr False"
    by blast
  from th [where resp = "Inr ''{}''" and t = "''{}''" and v = "JDict []"] d e
  have 4: "search_startup_info json_loads ''Acme'' (Inr ''{}'') = Inr (JDict [])"
    by blast
  from a b c d e 1 2 3 4 show ?thesis by blast
qed

lemma literal_records_status:
  "py_get (search_error_record n e) ''hiring_status'' d = Inr (JStr ''unknown'')"
  "py_get (no_json_record n t) ''hiring_status'' d = Inr (JStr ''unknown'')"
  "py_get (raw_response_record n t) ''hiring_status'' d = Inr (JStr ''unknown'')"
  by (simp_all add: search_error_record_def no_json_record_def raw_response_record_def)

text \<open>
  Claim C7 says that the hiring status of every record is yes, no or unknown up to
  case, an absent or invalid one being replaced by unknown in the record. The code
  replaces nothing: a response whose status is "maybe" gives a record with that status,
  and the response \<^verbatim>\<open>{}\<close> gives a record without any.
\<close>

theorem hiring_status_counterexample:
  "search_startup_info json_loads ''Acme'' (Inr ''{\"hiring_status\": \"maybe\"}'') =
     Inr (JDict [(''hiring_status'', JStr ''maybe'')])
   \<and> \<not> hiring_status_valid (JDict [(''hiring_status'', JStr ''maybe'')])
   \<and> search_startup_info json_loads ''Acme'' (Inr ''{}'') = Inr (JDict [])
   \<and> \<not> hiring_status_valid (JDict [])"
  by (simp add: search_startup_info_cases json_found_iff run_text str_lower_def lower_char_def)

text \<open>
  Claim C7, as the code has it. On the error branch and on the two fallback branches
  the hiring status of the record is "unknown". On the branch where the reader accepts
  the extracted text, the record is the value read, so its hiring status is the one of
  the response, whatever it is, or none.
\<close>

theorem hiring_status_by_branch:
  "(resp = Inl e \<longrightarrow>
      (\<exists>r. search_startup_info loads n resp = Inr r
            \<and> py_get r ''hiring_status'' d = Inr (JStr ''unknown'') \<and> hiring_status_valid r))
   \<and> (resp = Inr t \<and> \<not> json_found t \<longrightarrow>
      (\<exists>r. search_startup_info loads n resp = Inr r
            \<and> py_get r ''hiring_status'' d = Inr (JStr ''unknown'') \<and> hiring_status_valid r))
   \<and> (resp = Inr t \<and> json_found t \<and> loads (json_str t) = Inl e' \<longrightarrow>
      (\<exists>r. search_startup_info loads n resp = Inr r
            \<and> py_get r ''hiring_status'' d = Inr (JStr ''unknown'') \<and> hiring_status_valid r))
   \<and> (resp = Inr t \<and> json_found t \<and> loads (json_str t) = Inr v \<longrightarrow>
      search_startup_info loads n resp = Inr v)"
  by (auto simp add: search_startup_info_cases literal_records_status
        search_error_record_def no_json_record_def raw_response_record_def
        str_lower_def lower_char_def split: exn.splits)

theorem hiring_status_by_branch_witness:
  "(\<exists>r. search_startup_info json_loads ''Acme'' (Inl (OtherException ''quota'')) = Inr r
        \<and> py_get r ''hiring_status'' JNull = Inr (JStr ''unknown'') \<and> hiring_status_valid r)
   \<and> \<not> json_found ''no data''
   \<and> (\<exists>r. search_startup_info json_loads ''Acme'' (Inr ''no data'') = Inr r
        \<and> py_get r ''hiring_status'' JNull = Inr (JStr ''unknown'') \<and> hiring_status_valid r)
   \<and> json_found ''{y'' \<and> json_loads (json_str ''{y'') = Inl (JSONDecodeError ''Expecting value'')
   \<and> (\<exists>r. search_startup_info json_loads ''Acme'' (Inr ''{y'') = Inr r
        \<and> py_get r ''hiring_status'' JNull = Inr (JStr ''unknown'') \<and> hiring_status_valid r)
   \<and> json_found ''{\"hiring_status\": \"YES\"}''
   \<and> json_loads (json_str ''{\"hiring_status\": \"YES\"}'') = Inr (JDict [(''hiring_status'', JStr ''YES'')])
   \<and> search_startup_info json_loads ''Acme'' (Inr ''{\"hiring_status\": \"YES\"}'')
        = Inr (JDict [(''hiring_status'', JStr ''YES'')])"
proof -
  have a: "\<not> json_found ''no data''" by (simp add: json_found_iff)
  have b: "json_found ''{y''" by (simp add: json_found_iff)
  have c: "json_loads (json_str ''{y'') = Inl (JSONDecodeError ''Expecting value'')"
    by (simp add: run_text)
  have d: "json_found ''{\"hiring_status\": \"YES\"}''" by (simp add: json_found_iff)
  have e: "json_loads (json_str ''{\"hiring_status\": \"YES\"}'')
             = Inr (JDict [(''hiring_status'', JStr ''YES'')])"
    by (simp add: run_text)
  note th = hiring_status_by_branch [where loads = json_loads and n = "''Acme''" and d = JNull]
  from th [where resp = "Inl (OtherException ''quota'')" and e = "OtherException ''quota''"]
  have 1: "\<exists>r. search_startup_info json_loads ''Acme'' (Inl (OtherException ''quota'')) = Inr r
        \<and> py_get r ''hiring_status'' JNull = Inr (JStr ''unknown'') \<and> hiring_status_valid r"
    by blast
  from th [where resp = "Inr ''no data''" and t = "''no data''"] a
  have 2: "\<exists>r. search_startup_info json_loads ''Acme'' (Inr ''no data'') = Inr r
        \<and> py_get r ''hiring_status'' JNull = Inr (JStr ''unknown'') \<and> hiring_status_valid r"
    by blast
  from th [where resp = "Inr ''{y''" and t = "''{y''" and e' = "JSONDecodeError ''Expecting value''"] b c
  have 3: "\<exists>r. search_startup_info json_loads ''Acme'' (Inr ''{y'') = Inr r
        \<and> py_get r ''hiring_status'' JNull = Inr (JStr ''unknown'') \<and> hiring_status_valid r"
    by blast
  from th [where resp = "Inr ''{\"hiring_status\": \"YES\"}''" and t = "''{\"hiring_status\": \"YES\"}''"
             and v = "JDict [(''hiring_status'', JStr ''YES'')]"] d e
  have 4: "search_startup_info json_loads ''Acme'' (Inr ''{\"hiring_status\": \"YES\"}'')
        = Inr (JDict [(''hiring_status'', JStr ''YES'')])"
    by blast
  from a b c d e 1 2 3 4 show ?thesis by blast
qed

section \<open>The summary report\<close>

lemma filter_where_Inr:
  "filter_where p rs = Inr xs \<Longrightarrow> xs = filter (\<lambda>r. p r = Inr True) rs \<and> (\<forall>r\<in>set rs. \<exists>b. p r = Inr b)"
proof (induction rs arbitrary: xs)
  case Nil
  then show ?case by simp
next
  case (Cons r rs)
  from Cons.prems obtain b ys where b: "p r = Inr b" and ys: "filter_where p rs = Inr ys"
    and xs: "xs = (if b then r # ys else ys)"
    by (auto simp add: bindE_Inr_iff)
  from Cons.IH [OF ys] b xs show ?case by auto
qed

lemma filter_where_total:
  "(\<forall>r\<in>set rs. \<exists>b. p r = Inr b) \<Longrightarrow> \<exists>xs. filter_where p rs = Inr xs"
  by (induction rs) (auto simp add: bindE_simps)

lemma filter_where_Inl:
  "filter_where p rs = Inl e \<Longrightarrow> \<exists>r\<in>set rs. p r = Inl e"
  by (induction rs) (auto simp add: bindE_Inl_iff)

lemma company_lines_Inl:
  "company_lines cs = Inl e \<Longrightarrow> \<exists>c\<in>set cs. company_line c = Inl e"
  by (induction cs) (auto simp add: bindE_Inl_iff)

lemma company_lines_total:
  "(\<forall>c\<in>set cs. \<exists>l. company_line c = Inr l) \<Longrightarrow> \<exists>ls. company_lines cs = Inr ls"
  by (induction cs) (auto simp add: bindE_simps)

lemma py_get_not_zero_div: "py_get v k d \<noteq> Inl (ZeroDivisionError m)"
  by (cases v) (simp_all add: no_attribute_def)

lemma py_lower_not_zero_div: "py_lower v \<noteq> Inl (ZeroDivisionError m)"
  by (cases v) (simp_all add: no_attribute_def)

lemma py_in_not_zero_div: "py_in k v \<noteq> Inl (ZeroDivisionError m)"
  by (cases v) simp_all

lemma has_error_not_zero_div: "has_error r \<noteq> Inl (ZeroDivisionError m)"
  by (simp add: has_error_def py_in_not_zero_div)

lemma hiring_is_not_zero_div: "hiring_is s r \<noteq> Inl (ZeroDivisionError m)"
  by (simp add: hiring_is_def bindE_Inl_iff py_get_not_zero_div py_lower_not_zero_div)

lemma contact_found_not_zero_div: "contact_found k r \<noteq> Inl (ZeroDivisionError m)"
  by (simp add: contact_found_def bindE_Inl_iff py_get_not_zero_div)

lemma company_line_not_zero_div: "company_line c \<noteq> Inl (ZeroDivisionError m)"
  by (simp add: company_line_def bindE_Inl_iff py_get_not_zero_div)

lemma percent_Inr_iff: "percent c t = Inr q \<longleftrightarrow> t \<noteq> 0 \<and> q = of_int c / of_int t * 100"
  by (auto simp add: percent_def)

lemma percent_Inl_iff: "percent c t = Inl e \<longleftrightarrow> t = 0 \<and> e = ZeroDivisionError ''division by zero''"
  by (auto simp add: percent_def)



lemma report_ready_reads:
  assumes "report_ready r"
  shows "\<exists>b. has_error r = Inr b" and "\<exists>b. hiring_is s r = Inr b"
    and "\<exists>b. contact_found k r = Inr b" and "\<exists>l. company_line r = Inr l"
proof -
  from assms obtain d where r: "r = JDict d" by (cases r) simp_all
  from assms r have st: "map_of d ''hiring_status'' = None \<or> (\<exists>x. map_of d ''hiring_status'' = Some (JStr x))"
    by (auto split: option.splits json.splits)
  from assms r have ci: "map_of d ''contact_info'' = None \<or> (\<exists>c. map_of d ''contact_info'' = Some (JDict c))"
    by (auto split: option.splits json.splits)
  show "\<exists>b. has_error r = Inr b" using r by (simp add: has_error_def)
  show "\<exists>b. hiring_is s r = Inr b" using r st by (auto simp add: hiring_is_def bindE_simps)
  show "\<exists>b. contact_found k r = Inr b" using r ci by (auto simp add: contact_found_def bindE_simps)
  show "\<exists>l. company_line r = Inr l" using r ci by (auto simp add: company_line_def bindE_simps)
qed


lemma report_parts:
  assumes "generate_summary_report rs = Inr (Report rep)"
  shows "rs \<noteq> []"
    and "report.total rep = int (length rs)"
    and "\<exists>es. filter_where has_error rs = Inr es \<and> errors rep = int (length es)"
    and "\<exists>ys. filter_where (hiring_is ''yes'') rs = Inr ys \<and> hiring_yes rep = int (length ys)"
    and "\<exists>ns. filter_where (hiring_is ''no'') rs = Inr ns \<and> hiring_no rep = int (length ns)"
    and "\<exists>ws. filter_where (contact_found ''website'') rs = Inr ws \<and> has_website rep = int (length ws)"
    and "\<exists>ms. filter_where (contact_found ''email'') rs = Inr ms \<and> has_email rep = int (length ms)"
    and "successful rep = report.total rep - errors rep"
    and "hiring_unknown rep = report.total rep - hiring_yes rep - hiring_no rep"
  using assms
  by (auto simp add: generate_summary_report_def bindE_Inr_iff Let_def split: if_splits)

lemma report_percentages:
  assumes "generate_summary_report rs = Inr (Report rep)"
  shows "pct_successful rep = of_int (successful rep) / of_int (report.total rep) * 100"
    and "pct_errors rep = of_int (errors rep) / of_int (report.total rep) * 100"
    and "pct_yes rep = of_int (hiring_yes rep) / of_int (report.total rep) * 100"
    and "pct_no rep = of_int (hiring_no rep) / of_int (report.total rep) * 100"
    and "pct_unknown rep = of_int (hiring_unknown rep) / of_int (report.total rep) * 100"
    and "pct_website rep = of_int (has_website rep) / of_int (report.total rep) * 100"
    and "pct_email rep = of_int (has_email rep) / of_int (report.total rep) * 100"
  using assms
  by (auto simp add: generate_summary_report_def bindE_Inr_iff Let_def percent_Inr_iff
        split: if_splits)


lemma report_produced:
  assumes "rs \<noteq> []" and "list_all report_ready rs"
  shows "\<exists>rep. generate_summary_report rs = Inr (Report rep)"
proof -
  from assms(2) have rr: "\<forall>r\<in>set rs. report_ready r" by (simp add: list_all_iff)
  from rr obtain es where es: "filter_where has_error rs = Inr es"
    using filter_where_total [of rs has_error] report_ready_reads(1) by blast
  from rr obtain ys where ys: "filter_where (hiring_is ''yes'') rs = Inr ys"
    using filter_where_total [of rs "hiring_is ''yes''"] report_ready_reads(2) by blast
  from rr obtain ns where ns: "filter_where (hiring_is ''no'') rs = Inr ns"
    using filter_where_total [of rs "hiring_is ''no''"] report_ready_reads(2) by blast
  from rr obtain ws where ws: "filter_where (contact_found ''website'') rs = Inr ws"
    using filter_where_total [of rs "contact_found ''website''"] report_ready_reads(3) by blast
  from rr obtain ms where ms: "filter_where (contact_found ''email'') rs = Inr ms"
    using filter_where_total [of rs "contact_found ''email''"] report_ready_reads(3) by blast
  from filter_where_Inr [OF ys] have "set ys \<subseteq> set rs" by auto
  then have "set (take 10 ys) \<subseteq> set rs" using set_take_subset [of 10 ys] by blast
  with rr have "\<forall>c\<in>set (take 10 ys). \<exists>l. company_line c = Inr l"
    using report_ready_reads(4) by blast
  then obtain ls where ls: "company_lines (take 10 ys) = Inr ls"
    using company_lines_total by blast
  from assms(1) have t: "int (length rs) \<noteq> 0" by simp
  show ?thesis
    using assms(1) es ys ns ws ms ls t
    by (simp add: generate_summary_report_def bindE_simps Let_def percent_def)
qed


lemma report_not_zero_div: "generate_summary_report rs \<noteq> Inl (ZeroDivisionError m)"
proof (cases "rs = []")
  case True
  then show ?thesis by (simp add: generate_summary_report_def)
next
  case False
  then have t: "int (length rs) \<noteq> 0" by simp
  have f: "filter_where p xs \<noteq> Inl (ZeroDivisionError m)"
    if "\<And>r. p r \<noteq> Inl (ZeroDivisionError m)" for p xs
    using that filter_where_Inl [of p xs "ZeroDivisionError m"] by blast
  have c: "company_lines cs \<noteq> Inl (ZeroDivisionError m)" for cs
    using company_lines_Inl [of cs "ZeroDivisionError m"] company_line_not_zero_div by blast
  note fs = f [of has_error, OF has_error_not_zero_div]
    f [of "hiring_is s" for s, OF hiring_is_not_zero_div]
    f [of "contact_found k" for k, OF contact_found_not_zero_div]
  show ?thesis
    using False t
    by (simp add: generate_summary_report_def bindE_Inl_iff Let_def percent_Inl_iff fs c)
qed







text \<open>
  Claim C8. On the empty list the report is the early return "No results to analyze."
  and nothing is computed. On every list the report never raises a division by zero,
  and when it is produced the list is not empty, the total is its length, which is not
  zero, and each of the seven percentages is its count divided by that total.
\<close>

theorem report_never_divides_by_zero:
  "generate_summary_report [] = Inr NothingToAnalyze
   \<and> (\<forall>m. generate_summary_report rs \<noteq> Inl (ZeroDivisionError m))
   \<and> (\<forall>rep. generate_summary_report rs = Inr (Report rep) \<longrightarrow>
         rs \<noteq> [] \<and> report.total rep = int (length rs) \<and> report.total rep \<noteq> 0
       \<and> pct_successful rep = of_int (successful rep) / of_int (report.total rep) * 100
       \<and> pct_errors rep = of_int (errors rep) / of_int (report.total rep) * 100
       \<and> pct_yes rep = of_int (hiring_yes rep) / of_int (report.total rep) * 100
       \<and> pct_no rep = of_int (hiring_no rep) / of_int (report.total rep) * 100
       \<and> pct_unknown rep = of_int (hiring_unknown rep) / of_int (report.total rep) * 100
       \<and> pct_website rep = of_int (has_website rep) / of_int (report.total rep) * 100
       \<and> pct_email rep = of_int (has_email rep) / of_int (report.total rep) * 100)"
proof (intro conjI allI impI)
  show "generate_summary_report [] = Inr NothingToAnalyze"
    by (simp add: generate_summary_report_def)
next
  fix m
  show "generate_summary_report rs \<noteq> Inl (ZeroDivisionError m)"
    by (rule report_not_zero_div)
next
  fix rep
  assume g: "generate_summary_report rs = Inr (Report rep)"
  show "rs \<noteq> []" using g by (rule report_parts(1))
  show t: "report.total rep = int (length rs)" using g by (rule report_parts(2))
  from t \<open>rs \<noteq> []\<close> show "report.total rep \<noteq> 0" by simp
  show "pct_successful rep = of_int (successful rep) / of_int (report.total rep) * 100"
    using g by (rule report_percentages(1))
  show "pct_errors rep = of_int (errors rep) / of_int (report.total rep) * 100"
    using g by (rule report_percentages(2))
  show "pct_yes rep = of_int (hiring_yes rep) / of_int (report.total rep) * 100"
    using g by (rule report_percentages(3))
  show "pct_no rep = of_int (hiring_no rep) / of_int (report.total rep) * 100"
    using g by (rule report_percentages(4))
  show "pct_unknown rep = of_int (hiring_unknown rep) / of_int (report.total rep) * 100"
    using g by (rule report_percentages(5))
  show "pct_website rep = of_int (has_website rep) / of_int (report.total rep) * 100"
    using g by (rule report_percentages(6))
  show "pct_email rep = of_int (has_email rep) / of_int (report.total rep) * 100"
    using g by (rule report_percentages(7))
qed

theorem report_never_divides_by_zero_witness:
  "\<exists>rep. generate_summary_report
       [JDict [(''hiring_status'', JStr ''yes''), (''contact_info'', JDict [(''website'', JStr ''https://acme.io'')])],
        JDict [(''error'', JStr ''Failed''), (''hiring_status'', JStr ''unknown'')]] = Inr (Report rep)
     \<and> report.total rep = 2 \<and> report.total rep \<noteq> 0
     \<and> pct_yes rep = of_int (hiring_yes rep) / of_int (report.total rep) * 100
     \<and> pct_website rep = of_int (has_website rep) / of_int (report.total rep) * 100"
proof -
  let ?rs = "[JDict [(''hiring_status'', JStr ''yes''), (''contact_info'', JDict [(''website'', JStr ''https://acme.io'')])],
        JDict [(''error'', JStr ''Failed''), (''hiring_status'', JStr ''unknown'')]]"
  have "list_all report_ready ?rs" by simp
  then obtain rep where g: "generate_summary_report ?rs = Inr (Report rep)"
    using report_produced [of ?rs] by auto
  from report_never_divides_by_zero [of ?rs] g
  have "report.total rep = int (length ?rs)" and "report.total rep \<noteq> 0"
    and "pct_yes rep = of_int (hiring_yes rep) / of_int (report.total rep) * 100"
    and "pct_website rep = of_int (has_website rep) / of_int (report.total rep) * 100"
    by blast+
  with g show ?thesis by auto
qed

section \<open>The batch run\<close>

text \<open>
  A step of the loop appends the record of the query and, when the brief display of
  that record raises, the error record of the handler as well. So the list returned
  has one record for each name and one more for each name whose display raised.
\<close>

lemma process_startup_results:
  "results (process_startup loads client wr out n st) =
     results st @
       (case search_startup_info loads n (client n) of
          Inl e \<Rightarrow> [error_info n e]
        | Inr r \<Rightarrow> (case show_brief r of Inl e \<Rightarrow> [r, error_info n e] | Inr u \<Rightarrow> [r]))"
  by (simp add: process_startup_def Let_def split: sum.splits)

lemma process_startup_length:
  "length (results (process_startup loads client wr out n st)) =
     length (results st) + 1 +
       (if \<exists>r e. search_startup_info loads n (client n) = Inr r \<and> show_brief r = Inl e
        then 1 else 0)"
  by (auto simp add: process_startup_results search_startup_info_cases split: sum.splits)

lemma scrape_loop_length:
  "length (results (scrape_loop loads client wr out k i names st)) =
     length (results st) + length names +
       length (filter (\<lambda>n. \<exists>r e. search_startup_info loads n (client n) = Inr r
                                  \<and> show_brief r = Inl e) names)"
proof (induction names arbitrary: i st)
  case Nil
  then show ?case by simp
next
  case (Cons n names)
  show ?case
    by (simp add: Cons.IH Let_def process_startup_length)
qed

lemma scrape_startups_length:
  "length (results (scrape_startups loads client wr fs names out)) =
     length names +
       length (filter (\<lambda>n. \<exists>r e. search_startup_info loads n (client n) = Inr r
                                  \<and> show_brief r = Inl e) names)"
  by (simp add: scrape_startups_def scrape_loop_length)

text \<open>The definitions that running the batch on fixed names and responses unfolds.\<close>

lemmas run_scrape =
  scrape_startups_def process_startup_def show_brief_def save_progress_def error_info_def
  search_startup_info_cases json_found_iff bindE_simps

text \<open>
  Claim C1 says that the list returned has as many records as there are names, each
  turn of the loop appending one record. Run on the single name Acme with a response
  whose hiring status is \<^verbatim>\<open>null\<close>, the code returns two records: the parsed response,
  appended before the display, and the error record of the handler, appended when
  \<^verbatim>\<open>status.lower()\<close> raised.
\<close>

theorem display_fault_appends_twice:
  "results (scrape_startups json_loads (\<lambda>n. Inr ''{\"hiring_status\": null}'') (\<lambda>f rs. Inr ())
              Map.empty [''Acme''] None)
     = [JDict [(''hiring_status'', JNull)],
        JDict [(''startup_name'', JStr ''Acme''),
               (''error'', JStr (''Unexpected error: '' @ str_of (no_attribute JNull ''lower''))),
               (''description'', JStr ''Error occurred during search''),
               (''hiring_status'', JStr ''unknown''),
               (''contact_info'', contact_not_found)]]
   \<and> length (results (scrape_startups json_loads (\<lambda>n. Inr ''{\"hiring_status\": null}'')
                        (\<lambda>f rs. Inr ()) Map.empty [''Acme''] None)) = 2
   \<and> length [''Acme''] = 1"
  by (simp add: run_scrape run_text)

text \<open>
  Claim C3 says that, with a checkpoint path, the file holds the whole current list
  after each startup, also when the record comes from the handler of the loop. Run on
  the names Acme and Beta, where the response for Beta has the hiring status \<^verbatim>\<open>null\<close>,
  the code ends with three records in the list and a checkpoint file that still holds
  the one record written after Acme: the handler appends without saving.
\<close>

theorem display_fault_skips_checkpoint:
  "results (scrape_startups json_loads
              (\<lambda>n. if n = ''Acme'' then Inr ''{\"hiring_status\": \"yes\"}''
                    else Inr ''{\"hiring_status\": null}'')
              (\<lambda>f rs. Inr ()) Map.empty [''Acme'', ''Beta''] (Some ''out.json''))
     = [JDict [(''hiring_status'', JStr ''yes'')],
        JDict [(''hiring_status'', JNull)],
        JDict [(''startup_name'', JStr ''Beta''),
               (''error'', JStr (''Unexpected error: '' @ str_of (no_attribute JNull ''lower''))),
               (''description'', JStr ''Error occurred during search''),
               (''hiring_status'', JStr ''unknown''),
               (''contact_info'', contact_not_found)]]
   \<and> files (scrape_startups json_loads
              (\<lambda>n. if n = ''Acme'' then Inr ''{\"hiring_status\": \"yes\"}''
                    else Inr ''{\"hiring_status\": null}'')
              (\<lambda>f rs. Inr ()) Map.empty [''Acme'', ''Beta''] (Some ''out.json'')) ''out.json''
     = Some [JDict [(''hiring_status'', JStr ''yes'')]]"
  by (simp add: run_scrape run_text str_lower_def lower_char_def)

end
